theory Spec2Isabelle
  imports Main "HOL-Library.Word" "HOL-Library.AList"
begin

section \<open>Configuration-key tokenizer (src/util/config/detail/Helpers.h)\<close>

text \<open>
  \<^verbatim>\<open>Tokenizer<KeyType, Separator>\<close> with \<^verbatim>\<open>KeyType = std::string\<close>. The C++
  constructor and \<^verbatim>\<open>saveToken\<close> throw \<^verbatim>\<open>KeyException\<close>; the model returns
  the exception as the left summand. The separator, a template parameter in the
  source, is the first argument of every function here.
\<close>

datatype KeyException = KeyException string

record Tokenizer =
  tk_key :: string
  tk_token :: string
  tk_tokens :: "string list"

text \<open>
  \<^verbatim>\<open>saveToken\<close> (lines 88-95): throws on an empty pending token, otherwise
  pushes it to the back of the queue and resets it.
\<close>

definition saveToken :: "Tokenizer \<Rightarrow> KeyException + Tokenizer" where
  "saveToken t =
     (if tk_token t = []
      then Inl (KeyException (''Empty token in key '' @ [CHR 0x27] @ tk_key t @ [CHR 0x27] @ ''.''))
      else Inr (t\<lparr>tk_tokens := tk_tokens t @ [tk_token t], tk_token := []\<rparr>))"

text \<open>The range-for loop of the constructor (lines 66-72), one character per step.\<close>

fun scan :: "char \<Rightarrow> string \<Rightarrow> Tokenizer \<Rightarrow> KeyException + Tokenizer" where
  "scan sep [] t = Inr t"
| "scan sep (c # cs) t =
     (if c = sep
      then (case saveToken t of Inl e \<Rightarrow> Inl e | Inr t' \<Rightarrow> scan sep cs t')
      else scan sep cs (t\<lparr>tk_token := tk_token t @ [c]\<rparr>))"

text \<open>The constructor (lines 61-75).\<close>

definition mkTokenizer :: "char \<Rightarrow> string \<Rightarrow> KeyException + Tokenizer" where
  "mkTokenizer sep key =
     (if key = [] then Inl (KeyException ''Empty key'')
      else (case scan sep key \<lparr>tk_key = key, tk_token = [], tk_tokens = []\<rparr> of
              Inl e \<Rightarrow> Inl e
            | Inr t \<Rightarrow> saveToken t))"

text \<open>
  \<^verbatim>\<open>next()\<close> (lines 77-85): the returned optional together with the tokenizer
  after the call.
\<close>

definition tokenizer_next :: "Tokenizer \<Rightarrow> string option \<times> Tokenizer" where
  "tokenizer_next t =
     (case tk_tokens t of
        [] \<Rightarrow> (None, t)
      | token # rest \<Rightarrow> (Some token, t\<lparr>tk_tokens := rest\<rparr>))"

text \<open>The values returned by \<open>n\<close> successive calls of \<^verbatim>\<open>next()\<close>.\<close>

fun next_calls :: "nat \<Rightarrow> Tokenizer \<Rightarrow> string option list" where
  "next_calls 0 t = []"
| "next_calls (Suc n) t = fst (tokenizer_next t) # next_calls n (snd (tokenizer_next t))"

text \<open>
  The reference notion the tokenizer is compared with: the separator-delimited
  segments of a string, left to right. A string with \<open>k\<close> separators has
  \<open>k + 1\<close> segments, some of which may be empty.
\<close>

fun segments :: "char \<Rightarrow> string \<Rightarrow> string list" where
  "segments sep [] = [[]]"
| "segments sep (c # cs) =
     (if c = sep then [] # segments sep cs
      else (c # hd (segments sep cs)) # tl (segments sep cs))"

text \<open>
  A doubled separator: two adjacent separator characters somewhere in the key.
\<close>

definition doubled :: "char \<Rightarrow> string \<Rightarrow> bool" where
  "doubled sep key = (\<exists>xs ys. key = xs @ sep # sep # ys)"

text \<open>
  While the loop runs, the pending token is a prefix of the first remaining segment.
\<close>

definition pending :: "char \<Rightarrow> string \<Rightarrow> Tokenizer \<Rightarrow> string list" where
  "pending sep cs t = (tk_token t @ hd (segments sep cs)) # tl (segments sep cs)"

section \<open>The amm_info handler (src/rpc/handlers/AMMInfo.cpp, src/rpc/AMMHelpers.cpp)\<close>

subsection \<open>Ledger data\<close>

text \<open>
  Account identifiers and currency codes are 160-bit values (\<^verbatim>\<open>ripple::AccountID\<close>,
  \<^verbatim>\<open>ripple::Currency\<close>), object keys are 256-bit values, sequence numbers
  are \<^verbatim>\<open>std::uint32_t\<close>.
\<close>

type_synonym AccountID = "160 word"
type_synonym Currency = "160 word"
type_synonym uint256 = "256 word"
type_synonym Blob = "8 word list"

record Issue =
  currency :: Currency
  account :: AccountID

text \<open>
  Modelled from the spec: the native asset. \<^verbatim>\<open>xrpCurrency()\<close>,
  \<^verbatim>\<open>xrpAccount()\<close>, \<^verbatim>\<open>xrpIssue()\<close> and \<^verbatim>\<open>isXRP\<close> belong to the ripple
  library and are not under src/. Section 3: "a reserved sentinel represents the
  network's native asset", and asset identities are compared structurally. The sentinel
  is taken to be the all-zero currency with the all-zero account; \<^verbatim>\<open>isXRP\<close>
  compares a currency with the sentinel's.
\<close>

definition xrpCurrency :: Currency where
  "xrpCurrency = 0"

definition xrpAccount :: AccountID where
  "xrpAccount = 0"

definition xrpIssue :: Issue where
  "xrpIssue = \<lparr>currency = xrpCurrency, account = xrpAccount\<rparr>"

definition isXRP :: "Currency \<Rightarrow> bool" where
  "isXRP c = (c = xrpCurrency)"

text \<open>
  \<^verbatim>\<open>ripple::STAmount\<close>: a value tagged with the asset it is an amount of.
  \<^verbatim>\<open>isXRP(STAmount)\<close> asks whether the tag is the native asset.
\<close>

record STAmount =
  amt_issue :: Issue
  amt_value :: int

definition isXRP_amount :: "STAmount \<Rightarrow> bool" where
  "isXRP_amount a = isXRP (currency (amt_issue a))"

record LedgerRange =
  minSequence :: "32 word"
  maxSequence :: "32 word"

record LedgerInfo =
  seq :: "32 word"
  parentCloseTime :: "32 word"

text \<open>
  The decoded AMM ledger entry, with the fields the handler reads. An optional
  field of the entry (\<^verbatim>\<open>isFieldPresent\<close>) is an \<open>option\<close>.
\<close>

record VoteEntry =
  ve_Account :: AccountID
  ve_TradingFee :: "16 word"
  ve_VoteWeight :: "32 word"

record AuctionSlot =
  as_Account :: "AccountID option"
  as_Price :: STAmount
  as_DiscountedFee :: "16 word"
  as_Expiration :: "32 word"
  as_AuthAccounts :: "AccountID list option"

record SLE =
  sfAccount :: AccountID
  sfAsset :: Issue
  sfAsset2 :: Issue
  sfTradingFee :: "16 word"
  sfLPTokenBalance :: STAmount
  sfVoteSlots :: "VoteEntry list option"
  sfAuctionSlot :: "AuctionSlot option"

subsection \<open>JSON values\<close>

text \<open>
  \<^verbatim>\<open>boost::json::value\<close>. An object keeps its members in insertion order;
  \<^verbatim>\<open>obj[key] = v\<close> replaces the member \<open>key\<close> or appends a new one.
\<close>

datatype json =
    JNull
  | JBool bool
  | JInt int
  | JString string
  | JArray "json list"
  | JObject "(string \<times> json) list"

definition jset :: "string \<Rightarrow> json \<Rightarrow> (string \<times> json) list \<Rightarrow> (string \<times> json) list" where
  "jset k v obj = AList.update k v obj"

text \<open>The member \<open>k\<close> of a JSON value, when the value is an object that has one.\<close>

fun at_key :: "json \<Rightarrow> string \<Rightarrow> json option" where
  "at_key (JObject kvs) k = map_of kvs k"
| "at_key _ k = None"

subsection \<open>Errors, requests and responses\<close>

datatype RippledError =
    rpcACT_NOT_FOUND
  | rpcOBJECT_NOT_FOUND
  | rpcINVALID_PARAMS
  | rpcLGR_NOT_FOUND
  | rpcNOT_READY

datatype Status = Status RippledError

text \<open>
  What a call of the handler does: it returns a value, an exception leaves it, or it
  runs into undefined behaviour (the dereference of an empty \<^verbatim>\<open>std::optional\<close>).
\<close>

datatype 'a Outcome = Returned 'a | Thrown | Undefined

record Input =
  ledgerHash :: "string option"
  ledgerIndex :: "32 word option"
  issue1 :: Issue
  issue2 :: Issue
  accountID :: "AccountID option"

text \<open>
  \<^verbatim>\<open>AMMInfoHandler::Output\<close>, with the members that \<^verbatim>\<open>process\<close> and the
  serialiser use. The member \<^verbatim>\<open>ledgerIndex\<close> is \<open>ledgerIndexOut\<close> here, the
  name being taken by the request's member.
\<close>

record Output =
  amount1 :: json
  amount2 :: json
  lpToken :: json
  voteSlots :: "json list"
  auctionSlot :: json
  tradingFee :: "16 word"
  ammAccount :: string
  asset1Frozen :: "bool option"
  asset2Frozen :: "bool option"
  ledgerIndexOut :: "32 word"
  ammID :: string
  validated :: bool

text \<open>
  A default-constructed \<^verbatim>\<open>Output\<close> (\<^verbatim>\<open>Output response;\<close>, line 84). The
  header that declares \<^verbatim>\<open>Output\<close> is not under src/; \<^verbatim>\<open>process\<close> never
  assigns \<open>validated\<close>, which is taken to start as true, and nothing below depends
  on that value.
\<close>

definition defaultOutput :: Output where
  "defaultOutput =
     \<lparr>amount1 = JNull, amount2 = JNull, lpToken = JNull, voteSlots = [], auctionSlot = JNull,
      tradingFee = 0, ammAccount = [], asset1Frozen = None, asset2Frozen = None,
      ledgerIndexOut = 0, ammID = [], validated = True\<rparr>"

type_synonym Result = "Status + Output"

subsection \<open>Collaborators\<close>

text \<open>
  The functions of the ripple library and of the date library that the handler calls.
  Their code is outside the repository; the handler is modelled for any choice of them.
  \<open>deserialize\<close> is the constructor \<^verbatim>\<open>SLE{SerialIter{...}, key}\<close>, which throws on
  a blob that is not a well-formed entry (\<open>None\<close>). \<open>to_currency\<close> takes the old
  value of its output argument and the code. \<open>format_iso8601\<close> is the
  \<^verbatim>\<open>date::format\<close> call of \<^verbatim>\<open>to_iso8601\<close> (lines 29-38).
\<close>

record Ripple =
  keylet_account :: "AccountID \<Rightarrow> uint256"
  keylet_amm :: "Issue \<Rightarrow> Issue \<Rightarrow> uint256"
  ammLPTCurrency :: "Currency \<Rightarrow> Currency \<Rightarrow> Currency"
  ammAuctionTimeSlot :: "64 word \<Rightarrow> AuctionSlot \<Rightarrow> 8 word option"
  deserialize :: "Blob \<Rightarrow> uint256 \<Rightarrow> SLE option"
  getJson :: "STAmount \<Rightarrow> json"
  account_to_string :: "AccountID \<Rightarrow> string"
  key_to_string :: "uint256 \<Rightarrow> string"
  format_iso8601 :: "32 word \<Rightarrow> string"
  to_currency :: "Currency \<Rightarrow> string \<Rightarrow> Currency"

text \<open>
  The backing store (\<^verbatim>\<open>BackendInterface\<close>) as the handler sees it. The store is
  read-only here, so each operation is a function of its arguments.
  \<open>getLedgerInfoFromHashOrSeq\<close> and \<open>isFrozen\<close> are helpers of
  \<^verbatim>\<open>rpc/RPCHelpers\<close> (not under src/) that read the store; \<open>xrpLiquid\<close> and
  \<open>lineBalance\<close> are the two holdings the helper \<^verbatim>\<open>accountHolds\<close> reads.
\<close>

record Backend =
  fetchLedgerRange :: "LedgerRange option"
  getLedgerInfoFromHashOrSeq ::
    "string option \<Rightarrow> 32 word option \<Rightarrow> 32 word \<Rightarrow> Status + LedgerInfo"
  fetchLedgerObject :: "uint256 \<Rightarrow> 32 word \<Rightarrow> Blob option"
  xrpLiquid :: "32 word \<Rightarrow> AccountID \<Rightarrow> int"
  lineBalance :: "32 word \<Rightarrow> AccountID \<Rightarrow> Currency \<Rightarrow> AccountID \<Rightarrow> int"
  isFrozen :: "32 word \<Rightarrow> AccountID \<Rightarrow> Currency \<Rightarrow> AccountID \<Rightarrow> bool"

text \<open>
  The log of one request: every call into the store made by the code under src/, in
  the order of the calls, with the arguments of the call. A helper that reads the store
  is logged once, with the sequence number it was given.
\<close>

datatype Read =
    FetchLedgerRange
  | GetLedgerInfo "string option" "32 word option" "32 word"
  | FetchLedgerObject uint256 "32 word"
  | AccountHolds "32 word" AccountID Currency AccountID
  | IsFrozen "32 word" AccountID Currency AccountID

text \<open>The sequence number a logged call reads at, for the calls that take one.\<close>

fun read_sequence :: "Read \<Rightarrow> 32 word option" where
  "read_sequence FetchLedgerRange = None"
| "read_sequence (GetLedgerInfo h i m) = None"
| "read_sequence (FetchLedgerObject k s) = Some s"
| "read_sequence (AccountHolds s a c i) = Some s"
| "read_sequence (IsFrozen s a c i) = Some s"

text \<open>
  Modelled from the spec: \<^verbatim>\<open>accountHolds\<close> of \<^verbatim>\<open>rpc/RPCHelpers\<close>, which is
  not under src/. Section 3: an Amount is "a typed value tagged with its
  AssetIdentity". Section 4.5: the holdings are read at the given sequence, and
  "native-asset holdings are read from the account's direct balance; issued-asset
  holdings are read from the corresponding trust-line-like object".
\<close>

definition accountHolds ::
  "Backend \<Rightarrow> 32 word \<Rightarrow> AccountID \<Rightarrow> Currency \<Rightarrow> AccountID \<Rightarrow> Read list \<times> STAmount" where
  "accountHolds b sequence acct cur issuer =
     ([AccountHolds sequence acct cur issuer],
      if isXRP cur
      then \<lparr>amt_issue = xrpIssue, amt_value = xrpLiquid b sequence acct\<rparr>
      else \<lparr>amt_issue = \<lparr>currency = cur, account = issuer\<rparr>,
            amt_value = lineBalance b sequence acct cur issuer\<rparr>)"

subsection \<open>src/rpc/AMMHelpers.cpp\<close>

text \<open>\<^verbatim>\<open>getAmmPoolHolds\<close> (lines 28-43).\<close>

definition getAmmPoolHolds ::
  "Backend \<Rightarrow> 32 word \<Rightarrow> AccountID \<Rightarrow> Issue \<Rightarrow> Issue \<Rightarrow> Read list \<times> (STAmount \<times> STAmount)" where
  "getAmmPoolHolds b sequence ammAccountID i1 i2 =
     (let (r1, assetInBalance) =
            accountHolds b sequence ammAccountID (currency i1) (account i1);
          (r2, assetOutBalance) =
            accountHolds b sequence ammAccountID (currency i2) (account i2)
      in (r1 @ r2, (assetInBalance, assetOutBalance)))"

text \<open>\<^verbatim>\<open>getAmmLpHolds\<close> on two currencies (lines 45-58).\<close>

definition getAmmLpHolds ::
  "Ripple \<Rightarrow> Backend \<Rightarrow> 32 word \<Rightarrow> Currency \<Rightarrow> Currency \<Rightarrow> AccountID \<Rightarrow> AccountID
     \<Rightarrow> Read list \<times> STAmount" where
  "getAmmLpHolds x b sequence cur1 cur2 ammAcct lpAccount =
     (let lptCurrency = ammLPTCurrency x cur1 cur2
      in accountHolds b sequence lpAccount lptCurrency ammAcct)"

text \<open>\<^verbatim>\<open>getAmmLpHolds\<close> on the AMM entry (lines 60-78).\<close>

definition getAmmLpHolds_sle ::
  "Ripple \<Rightarrow> Backend \<Rightarrow> 32 word \<Rightarrow> SLE \<Rightarrow> AccountID \<Rightarrow> Read list \<times> STAmount" where
  "getAmmLpHolds_sle x b sequence ammSle lpAccount =
     getAmmLpHolds x b sequence (currency (sfAsset ammSle)) (currency (sfAsset2 ammSle))
       (sfAccount ammSle) lpAccount"

subsection \<open>src/rpc/handlers/AMMInfo.cpp: process\<close>

text \<open>
  \<^verbatim>\<open>to_iso8601\<close> (lines 29-38) hands the time point, moved to the system
  clock's epoch, to \<^verbatim>\<open>date::format\<close>.
\<close>

definition to_iso8601 :: "Ripple \<Rightarrow> 32 word \<Rightarrow> string" where
  "to_iso8601 x tp = format_iso8601 x tp"

text \<open>
  Modelled from the spec: the constant \<^verbatim>\<open>AUCTION_SLOT_TIME_INTERVALS\<close> of
  \<^verbatim>\<open>ripple/protocol/AMMCore.h\<close>, which is not under src/. Section 8: a slot has
  "20 equal sub-intervals over its active window".
\<close>

definition AUCTION_SLOT_TIME_INTERVALS :: int where
  "AUCTION_SLOT_TIME_INTERVALS = 20"

text \<open>
  The value of \<^verbatim>\<open>time_interval\<close> (line 113):
  \<^verbatim>\<open>timeSlot ? *timeSlot : AUCTION_SLOT_TIME_INTERVALS\<close>.
\<close>

definition time_interval :: "8 word option \<Rightarrow> int" where
  "time_interval timeSlot =
     (case timeSlot of Some t \<Rightarrow> uint t | None \<Rightarrow> AUCTION_SLOT_TIME_INTERVALS)"

text \<open>One element of \<^verbatim>\<open>vote_slots\<close> (lines 96-99).\<close>

definition voteJson :: "Ripple \<Rightarrow> VoteEntry \<Rightarrow> json" where
  "voteJson x voteEntry =
     (let vote = [];
          vote = jset ''account'' (JString (account_to_string x (ve_Account voteEntry))) vote;
          vote = jset ''trading_fee'' (JInt (uint (ve_TradingFee voteEntry))) vote;
          vote = jset ''vote_weight'' (JInt (uint (ve_VoteWeight voteEntry))) vote
      in JObject vote)"

text \<open>
  The \<^verbatim>\<open>auction\<close> object (lines 110-128), built when the slot has the account
  \<open>slotAccount\<close>.
\<close>

definition auctionJson :: "Ripple \<Rightarrow> LedgerInfo \<Rightarrow> AuctionSlot \<Rightarrow> AccountID \<Rightarrow> json" where
  "auctionJson x lgrInfo slot slotAccount =
     (let auction = [];
          timeSlot = ammAuctionTimeSlot x (ucast (parentCloseTime lgrInfo)) slot;
          auction = jset ''time_interval'' (JInt (time_interval timeSlot)) auction;
          auction = jset ''price'' (getJson x (as_Price slot)) auction;
          auction = jset ''discounted_fee'' (JInt (uint (as_DiscountedFee slot))) auction;
          auction = jset ''account'' (JString (account_to_string x slotAccount)) auction;
          auction = jset ''expiration'' (JString (to_iso8601 x (as_Expiration slot))) auction;
          auction =
            (case as_AuthAccounts slot of
               None \<Rightarrow> auction
             | Some accts \<Rightarrow>
                 jset ''auth_accounts''
                   (JArray (map (\<lambda>acct. JObject [(''account'', JString (account_to_string x acct))])
                      accts))
                   auction)
      in JObject auction)"

text \<open>
  Lines 76-143 of \<^verbatim>\<open>process\<close>: the balances and the response, once the AMM entry
  and the account that owns it have been found. The result is the log of the calls
  into the store and the response.
\<close>

definition assemble ::
  "Ripple \<Rightarrow> Backend \<Rightarrow> Input \<Rightarrow> LedgerInfo \<Rightarrow> uint256 \<Rightarrow> SLE \<Rightarrow> Read list \<times> Output" where
  "assemble x b input lgrInfo ammKey amm =
     (let accID = sfAccount amm;
          (r1, (asset1Balance, asset2Balance)) =
            getAmmPoolHolds b (seq lgrInfo) accID (issue1 input) (issue2 input);
          (r2, lptAMMBalance) =
            (case accountID input of
               Some lp \<Rightarrow> getAmmLpHolds_sle x b (seq lgrInfo) amm lp
             | None \<Rightarrow> ([], sfLPTokenBalance amm));
          response = defaultOutput
            \<lparr>ledgerIndexOut := seq lgrInfo,
             amount1 := getJson x asset1Balance,
             amount2 := getJson x asset2Balance,
             lpToken := getJson x lptAMMBalance,
             tradingFee := sfTradingFee amm,
             ammAccount := account_to_string x accID\<rparr>;
          response =
            (case sfVoteSlots amm of
               None \<Rightarrow> response
             | Some votes \<Rightarrow> response\<lparr>voteSlots := voteSlots response @ map (voteJson x) votes\<rparr>);
          response =
            (case sfAuctionSlot amm of
               None \<Rightarrow> response
             | Some slot \<Rightarrow>
                 (case as_Account slot of
                    None \<Rightarrow> response
                  | Some slotAccount \<Rightarrow>
                      response\<lparr>auctionSlot := auctionJson x lgrInfo slot slotAccount\<rparr>));
          (r3, response) =
            (if \<not> isXRP_amount asset1Balance
             then ([IsFrozen (seq lgrInfo) accID (currency (issue1 input)) (account (issue1 input))],
                   response\<lparr>asset1Frozen :=
                     Some (isFrozen b (seq lgrInfo) accID (currency (issue1 input))
                       (account (issue1 input)))\<rparr>)
             else ([], response));
          (r4, response) =
            (if \<not> isXRP_amount asset2Balance
             then ([IsFrozen (seq lgrInfo) accID (currency (issue2 input)) (account (issue2 input))],
                   response\<lparr>asset2Frozen :=
                     Some (isFrozen b (seq lgrInfo) accID (currency (issue2 input))
                       (account (issue2 input)))\<rparr>)
             else ([], response));
          response = response\<lparr>ammID := key_to_string x ammKey\<rparr>
      in (r1 @ r2 @ r3 @ r4, response))"

text \<open>
  Lines 57-74 of \<^verbatim>\<open>process\<close>, for a resolved ledger: the check of the account of
  the request, the fetch and the decoding of the AMM entry, the fetch of the account
  that owns it.
\<close>

definition process_at ::
  "Ripple \<Rightarrow> Backend \<Rightarrow> Input \<Rightarrow> LedgerInfo \<Rightarrow> Read list \<times> Result Outcome" where
  "process_at x b input lgrInfo =
     (let (r1, missing) =
            (case accountID input of
               None \<Rightarrow> ([], False)
             | Some a \<Rightarrow>
                 ([FetchLedgerObject (keylet_account x a) (seq lgrInfo)],
                  fetchLedgerObject b (keylet_account x a) (seq lgrInfo) = None))
      in if missing then (r1, Returned (Inl (Status rpcACT_NOT_FOUND)))
         else
           let ammKey = keylet_amm x (issue1 input) (issue2 input);
               r2 = r1 @ [FetchLedgerObject ammKey (seq lgrInfo)]
           in case fetchLedgerObject b ammKey (seq lgrInfo) of
                None \<Rightarrow> (r2, Returned (Inl (Status rpcACT_NOT_FOUND)))
              | Some ammBlob \<Rightarrow>
                  (case deserialize x ammBlob ammKey of
                     None \<Rightarrow> (r2, Thrown)
                   | Some amm \<Rightarrow>
                       let accID = sfAccount amm;
                           r3 = r2 @ [FetchLedgerObject (keylet_account x accID) (seq lgrInfo)]
                       in case fetchLedgerObject b (keylet_account x accID) (seq lgrInfo) of
                            None \<Rightarrow> (r3, Returned (Inl (Status rpcACT_NOT_FOUND)))
                          | Some accBlob \<Rightarrow>
                              let (r4, response) = assemble x b input lgrInfo ammKey amm
                              in (r3 @ r4, Returned (Inr response))))"

text \<open>
  \<^verbatim>\<open>AMMInfoHandler::process\<close> (lines 43-144). Line 50 reads
  \<^verbatim>\<open>range->maxSequence\<close> without a test of \<^verbatim>\<open>range\<close>: on an empty optional
  that is undefined behaviour.
\<close>

definition process :: "Ripple \<Rightarrow> Backend \<Rightarrow> Input \<Rightarrow> Read list \<times> Result Outcome" where
  "process x b input =
     (case fetchLedgerRange b of
        None \<Rightarrow> ([FetchLedgerRange], Undefined)
      | Some rng \<Rightarrow>
          let r0 = [FetchLedgerRange,
                    GetLedgerInfo (ledgerHash input) (ledgerIndex input) (maxSequence rng)]
          in case getLedgerInfoFromHashOrSeq b (ledgerHash input) (ledgerIndex input)
                    (maxSequence rng) of
               Inl status \<Rightarrow> (r0, Returned (Inl status))
             | Inr lgrInfo \<Rightarrow>
                 let (r, result) = process_at x b input lgrInfo in (r0 @ r, result))"

subsection \<open>src/rpc/handlers/AMMInfo.cpp: the JSON conversions\<close>

text \<open>
  \<^verbatim>\<open>tag_invoke(value_from_tag, ...)\<close> (lines 146-174). \<^verbatim>\<open>JS(name)\<close> is the
  string \<open>name\<close>.
\<close>

definition value_from :: "Output \<Rightarrow> json" where
  "value_from output =
     (let amm = [(''lp_token'', lpToken output),
                 (''amount'', amount1 output),
                 (''amount2'', amount2 output),
                 (''account'', JString (ammAccount output)),
                 (''trading_fee'', JInt (uint (tradingFee output)))];
          amm = (if auctionSlot output \<noteq> JNull
                 then jset ''auction_slot'' (auctionSlot output) amm else amm);
          amm = (if voteSlots output \<noteq> []
                 then jset ''vote_slots'' (JArray (voteSlots output)) amm else amm);
          amm = (case asset1Frozen output of
                   Some frozen \<Rightarrow> jset ''asset_frozen'' (JBool frozen) amm
                 | None \<Rightarrow> amm);
          amm = (case asset2Frozen output of
                   Some frozen \<Rightarrow> jset ''asset2_frozen'' (JBool frozen) amm
                 | None \<Rightarrow> amm)
      in JObject
           [(''amm'', JObject amm),
            (''ledger_index'', JInt (uint (ledgerIndexOut output))),
            (''validated'', JBool (validated output))])"

text \<open>The member \<open>k\<close> of the \<open>amm\<close> object of the serialised response.\<close>

definition amm_member :: "Output \<Rightarrow> string \<Rightarrow> json option" where
  "amm_member output k =
     (case at_key (value_from output) ''amm'' of
        Some amm \<Rightarrow> at_key amm k
      | None \<Rightarrow> None)"

text \<open>
  The lambda \<^verbatim>\<open>getIssue\<close> of \<^verbatim>\<open>tag_invoke(value_to_tag<Input>, ...)\<close>
  (lines 193-200). \<^verbatim>\<open>request.at("currency")\<close> throws when the request is not an
  object or has no such member, \<^verbatim>\<open>as_string()\<close> throws on a member that is not
  a string: the result is then \<open>None\<close>.
\<close>

definition getIssue :: "Ripple \<Rightarrow> json \<Rightarrow> Issue option" where
  "getIssue x request =
     (let issue = xrpIssue
      in case at_key request ''currency'' of
           Some (JString code) \<Rightarrow>
             Some (issue\<lparr>currency := to_currency x (currency issue) code\<rparr>)
         | _ \<Rightarrow> None)"

text \<open>
  Lines 202-203: \<^verbatim>\<open>input.issue1\<close> and \<^verbatim>\<open>input.issue2\<close> from the members
  \<open>asset\<close> and \<open>asset2\<close> of the request.
\<close>

definition request_issues :: "Ripple \<Rightarrow> json \<Rightarrow> (Issue \<times> Issue) option" where
  "request_issues x jv =
     (case at_key jv ''asset'' of
        None \<Rightarrow> None
      | Some asset \<Rightarrow>
          (case getIssue x asset of
             None \<Rightarrow> None
           | Some i1 \<Rightarrow>
               (case at_key jv ''asset2'' of
                  None \<Rightarrow> None
                | Some asset2 \<Rightarrow>
                    (case getIssue x asset2 of
                       None \<Rightarrow> None
                     | Some i2 \<Rightarrow> Some (i1, i2)))))"

subsection \<open>The auction-slot projector of the specification\<close>

text \<open>
  Modelled from the spec: \<^verbatim>\<open>ammAuctionTimeSlot\<close> of
  \<^verbatim>\<open>ripple/protocol/AMMCore.h\<close>, which is not under src/ (the handler calls it on
  line 111). Section 4.6: "compute the zero-based sub-interval index:
  floor((parentCloseTime - slotStart) / subIntervalDuration). If the computed index is
  negative or exceeds the maximum sub-interval count, the slot is considered outside its
  active window and the projector returns the sentinel "no active interval" value".
  Section 8: with 20 sub-intervals "a parentCloseTime after the window's end yields the
  "no active interval" sentinel". The sub-intervals are counted from zero, so the
  maximum is the number of the last one, \<open>intervals - 1\<close>: an index of \<open>intervals\<close>
  or more lies after the end of the window, as section 8 asks. The sentinel is
  \<open>None\<close>; \<open>div\<close> on \<open>int\<close> rounds down.
\<close>

definition auctionTimeSlot_spec :: "int \<Rightarrow> int \<Rightarrow> int \<Rightarrow> int \<Rightarrow> int option" where
  "auctionTimeSlot_spec intervals subIntervalDuration slotStart closeTime =
     (let index = (closeTime - slotStart) div subIntervalDuration
      in if index < 0 \<or> index > intervals - 1 then None else Some index)"

text \<open>
  Modelled from the spec: the projector with the arguments and the result of the
  library function, for a sub-interval duration \<open>d\<close>. Section 4.6 takes the start
  of the window from the expiration of the slot, and the window is
  \<^verbatim>\<open>AUCTION_SLOT_TIME_INTERVALS\<close> sub-intervals long: it starts that many
  sub-intervals before the expiration.
\<close>

definition ammAuctionTimeSlot_spec :: "int \<Rightarrow> 64 word \<Rightarrow> AuctionSlot \<Rightarrow> 8 word option" where
  "ammAuctionTimeSlot_spec d current slot =
     map_option word_of_int
       (auctionTimeSlot_spec AUCTION_SLOT_TIME_INTERVALS d
          (uint (as_Expiration slot) - AUCTION_SLOT_TIME_INTERVALS * d) (uint current))"

section \<open>Notions used by the statements\<close>

text \<open>
  The ledger a request resolves to (lines 48-55), and the AMM entry the handler decodes
  for it (lines 64-70), when there is one.
\<close>

definition resolved_ledger :: "Backend \<Rightarrow> Input \<Rightarrow> LedgerInfo option" where
  "resolved_ledger b input =
     (case fetchLedgerRange b of
        None \<Rightarrow> None
      | Some rng \<Rightarrow>
          (case getLedgerInfoFromHashOrSeq b (ledgerHash input) (ledgerIndex input)
                  (maxSequence rng) of
             Inl status \<Rightarrow> None
           | Inr lgrInfo \<Rightarrow> Some lgrInfo))"

definition amm_entry :: "Ripple \<Rightarrow> Backend \<Rightarrow> Input \<Rightarrow> LedgerInfo \<Rightarrow> SLE option" where
  "amm_entry x b input lgrInfo =
     (case fetchLedgerObject b (keylet_amm x (issue1 input) (issue2 input)) (seq lgrInfo) of
        None \<Rightarrow> None
      | Some ammBlob \<Rightarrow> deserialize x ammBlob (keylet_amm x (issue1 input) (issue2 input)))"

text \<open>
  The member \<open>time_interval\<close> of the \<open>auction_slot\<close> member of the serialised
  response.
\<close>

definition auction_time_interval :: "Output \<Rightarrow> json option" where
  "auction_time_interval output =
     (case amm_member output ''auction_slot'' of
        Some auction \<Rightarrow> at_key auction ''time_interval''
      | None \<Rightarrow> None)"

fun is_IsFrozen :: "Read \<Rightarrow> bool" where
  "is_IsFrozen (IsFrozen s a c i) = True"
| "is_IsFrozen _ = False"

section \<open>A concrete store and concrete requests\<close>

text \<open>
  A small store for the concrete instances below. Its one AMM entry is owned by account
  5, pools the issued currency 1 and the native asset, and has an auction slot without
  an \<open>Account\<close> field. The entry is stored under key 0, its owner's account under
  key 6, both at sequence 100.
\<close>

definition ex_amm :: SLE where
  "ex_amm =
     \<lparr>sfAccount = 5,
      sfAsset = \<lparr>currency = 1, account = 0\<rparr>,
      sfAsset2 = \<lparr>currency = 0, account = 0\<rparr>,
      sfTradingFee = 10,
      sfLPTokenBalance = \<lparr>amt_issue = \<lparr>currency = 3, account = 5\<rparr>, amt_value = 1000\<rparr>,
      sfVoteSlots = None,
      sfAuctionSlot =
        Some \<lparr>as_Account = None,
              as_Price = \<lparr>amt_issue = \<lparr>currency = 3, account = 5\<rparr>, amt_value = 0\<rparr>,
              as_DiscountedFee = 0, as_Expiration = 86400, as_AuthAccounts = None\<rparr>\<rparr>"

definition ex_lib :: Ripple where
  "ex_lib =
     \<lparr>keylet_account = (\<lambda>a. ucast a + 1),
      keylet_amm = (\<lambda>i j. 0),
      ammLPTCurrency = (\<lambda>c d. 3),
      ammAuctionTimeSlot = (\<lambda>t s. None),
      deserialize = (\<lambda>blob key. if blob = [1] then Some ex_amm else None),
      getJson = (\<lambda>a. JInt (amt_value a)),
      account_to_string = (\<lambda>a. ''account''),
      key_to_string = (\<lambda>k. ''key''),
      format_iso8601 = (\<lambda>t. ''time''),
      to_currency = (\<lambda>old code. if code = ''XRP'' then 0 else 1)\<rparr>"

definition ex_backend :: Backend where
  "ex_backend =
     \<lparr>fetchLedgerRange = Some \<lparr>minSequence = 1, maxSequence = 100\<rparr>,
      getLedgerInfoFromHashOrSeq = (\<lambda>h i m. Inr \<lparr>seq = m, parentCloseTime = 43200\<rparr>),
      fetchLedgerObject = (\<lambda>k s. if s = 100 \<and> (k = 0 \<or> k = 6) then Some [1] else None),
      xrpLiquid = (\<lambda>s a. 50),
      lineBalance = (\<lambda>s a c i. 70),
      isFrozen = (\<lambda>s a c i. False)\<rparr>"

text \<open>The same store with no known range.\<close>

definition ex_no_range :: Backend where
  "ex_no_range = ex_backend\<lparr>fetchLedgerRange := None\<rparr>"

text \<open>
  The same entry with an auction slot held by account 7 that expires at 86400, read
  through a library whose projector is the one of the specification with sub-intervals
  of 4320 seconds: the window of the slot is from 0 to 86400. The ledger of
  \<open>ex_backend\<close> closed at 43200, the midpoint of the window; the ledger of
  \<open>ex_late_backend\<close> closed at 86401, after its end.
\<close>

definition ex_auction_amm :: SLE where
  "ex_auction_amm =
     ex_amm\<lparr>sfAuctionSlot :=
       Some \<lparr>as_Account = Some 7,
             as_Price = \<lparr>amt_issue = \<lparr>currency = 3, account = 5\<rparr>, amt_value = 0\<rparr>,
             as_DiscountedFee = 0, as_Expiration = 86400, as_AuthAccounts = None\<rparr>\<rparr>"

definition ex_auction_lib :: Ripple where
  "ex_auction_lib =
     ex_lib\<lparr>ammAuctionTimeSlot := ammAuctionTimeSlot_spec 4320,
            deserialize := (\<lambda>blob key. if blob = [1] then Some ex_auction_amm else None)\<rparr>"

definition ex_late_backend :: Backend where
  "ex_late_backend =
     ex_backend\<lparr>getLedgerInfoFromHashOrSeq :=
       (\<lambda>h i m. Inr \<lparr>seq = m, parentCloseTime = 86401\<rparr>)\<rparr>"

text \<open>
  A request for the pair of the entry with no account, and the same request with an
  account the store does not have.
\<close>

definition ex_input :: Input where
  "ex_input =
     \<lparr>ledgerHash = None, ledgerIndex = None,
      issue1 = \<lparr>currency = 1, account = 0\<rparr>,
      issue2 = \<lparr>currency = 0, account = 0\<rparr>,
      accountID = None\<rparr>"

definition ex_stranger_input :: Input where
  "ex_stranger_input = ex_input\<lparr>accountID := Some 9\<rparr>"

text \<open>The log and the response of \<open>ex_input\<close> on \<open>ex_backend\<close>.\<close>

definition ex_reads :: "Read list" where
  "ex_reads =
     [FetchLedgerRange, GetLedgerInfo None None 100, FetchLedgerObject 0 100,
      FetchLedgerObject 6 100, AccountHolds 100 5 1 0, AccountHolds 100 5 0 0,
      IsFrozen 100 5 1 0]"

definition ex_output :: Output where
  "ex_output =
     \<lparr>amount1 = JInt 70, amount2 = JInt 50, lpToken = JInt 1000, voteSlots = [],
      auctionSlot = JNull, tradingFee = 10, ammAccount = ''account'',
      asset1Frozen = Some False, asset2Frozen = None, ledgerIndexOut = 100,
      ammID = ''key'', validated = True\<rparr>"

section \<open>The tokenizer: proofs\<close>

subsection \<open>The reference segments are the separator-delimited pieces\<close>

lemma segments_ne [simp]: "segments sep cs \<noteq> []"
  by (induction cs) auto

text \<open>Joining the segments with the separator gives the key back.\<close>

lemma segments_join: "concat (map (\<lambda>s. sep # s) (segments sep cs)) = sep # cs"
proof (induction cs)
  case Nil
  show ?case by simp
next
  case (Cons c cs)
  obtain s ss where s: "segments sep cs = s # ss"
    by (cases "segments sep cs") auto
  with Cons show ?case by (cases "c = sep") simp_all
qed

text \<open>No segment contains the separator.\<close>

lemma segments_no_sep: "s \<in> set (segments sep cs) \<Longrightarrow> sep \<notin> set s"
proof (induction cs arbitrary: s)
  case Nil
  then show ?case by simp
next
  case (Cons c cs)
  obtain x xs where x: "segments sep cs = x # xs"
    by (cases "segments sep cs") auto
  with Cons show ?case by (auto split: if_splits)
qed

lemma doubled_Nil [simp]: "\<not> doubled sep []"
  by (simp add: doubled_def)

lemma doubled_Cons:
  "doubled sep (c # cs) \<longleftrightarrow> (c = sep \<and> cs \<noteq> [] \<and> hd cs = sep) \<or> doubled sep cs"
  unfolding doubled_def
  apply (rule iffI)
   apply (elim exE)
  subgoal for xs ys by (cases xs) auto
  apply (elim disjE conjE exE)
  subgoal by (cases cs) (auto intro: exI [of _ "[]"])
  subgoal for xs ys by (auto intro: exI [of _ "c # xs"])
  done

lemma hd_segments: "cs \<noteq> [] \<Longrightarrow> hd (segments sep cs) = [] \<longleftrightarrow> hd cs = sep"
  by (cases cs) auto

lemma tl_segments_empty:
  "[] \<in> set (tl (segments sep cs)) \<longleftrightarrow> cs \<noteq> [] \<and> (last cs = sep \<or> doubled sep cs)"
proof (induction cs)
  case Nil
  show ?case by simp
next
  case (Cons c cs)
  have mem: "[] \<in> set (segments sep cs) \<longleftrightarrow>
      hd (segments sep cs) = [] \<or> [] \<in> set (tl (segments sep cs))"
    by (cases "segments sep cs") auto
  show ?case
  proof (cases "cs = []")
    case True
    then show ?thesis by (simp add: doubled_Cons)
  next
    case False
    then show ?thesis
      using Cons.IH mem hd_segments [OF False, of sep]
      by (auto simp: doubled_Cons)
  qed
qed

text \<open>
  An empty segment is a leading separator, a trailing separator or a doubled one.
\<close>

lemma empty_segment_iff:
  assumes "key \<noteq> []"
  shows "[] \<in> set (segments sep key) \<longleftrightarrow> hd key = sep \<or> last key = sep \<or> doubled sep key"
proof -
  have "[] \<in> set (segments sep key) \<longleftrightarrow>
      hd (segments sep key) = [] \<or> [] \<in> set (tl (segments sep key))"
    by (cases "segments sep key") auto
  then show ?thesis
    using assms by (simp add: hd_segments tl_segments_empty)
qed

subsection \<open>The constructor against the reference segments\<close>

lemma scan_segments:
  "scan sep cs t =
     (if [] \<in> set (butlast (pending sep cs t))
      then Inl (KeyException (''Empty token in key '' @ [CHR 0x27] @ tk_key t @ [CHR 0x27] @ ''.''))
      else Inr (t\<lparr>tk_tokens := tk_tokens t @ butlast (pending sep cs t),
                 tk_token := last (pending sep cs t)\<rparr>))"
proof (induction cs arbitrary: t)
  case Nil
  then show ?case by (simp add: pending_def)
next
  case (Cons c cs)
  obtain x xs where x: "segments sep cs = x # xs"
    by (cases "segments sep cs") auto
  show ?case
  proof (cases "c = sep")
    case True
    then show ?thesis
      by (simp add: Cons.IH saveToken_def pending_def x)
  next
    case False
    then show ?thesis
      by (simp add: Cons.IH pending_def x)
  qed
qed

lemma set_butlast_last: "ys \<noteq> [] \<Longrightarrow> set ys = insert (last ys) (set (butlast ys))"
  by (induction ys) auto

lemma mkTokenizer_segments:
  "mkTokenizer sep key =
     (if key = [] then Inl (KeyException ''Empty key'')
      else if [] \<in> set (segments sep key)
      then Inl (KeyException (''Empty token in key '' @ [CHR 0x27] @ key @ [CHR 0x27] @ ''.''))
      else Inr \<lparr>tk_key = key, tk_token = [], tk_tokens = segments sep key\<rparr>)"
proof -
  obtain x xs where x: "segments sep key = x # xs"
    by (cases "segments sep key") auto
  have "set (x # xs) = insert (last (x # xs)) (set (butlast (x # xs)))"
    by (rule set_butlast_last) simp
  then have mem: "[] \<in> set (x # xs) \<longleftrightarrow> [] \<in> set (butlast (x # xs)) \<or> last (x # xs) = []"
    by auto
  have app: "butlast (x # xs) @ [last (x # xs)] = x # xs"
    by (rule append_butlast_last_id) simp
  show ?thesis
    unfolding mkTokenizer_def scan_segments
    using mem app by (simp add: pending_def x saveToken_def del: butlast.simps last.simps)
qed

lemma next_calls_tokens:
  "next_calls n t = map Some (take n (tk_tokens t)) @ replicate (n - length (tk_tokens t)) None"
proof (induction n arbitrary: t)
  case 0
  show ?case by simp
next
  case (Suc n)
  show ?case
  proof (cases "tk_tokens t")
    case Nil
    then show ?thesis
      by (simp add: Suc.IH tokenizer_next_def replicate_Suc [symmetric] del: replicate_Suc)
  next
    case (Cons a as)
    then show ?thesis by (simp add: Suc.IH tokenizer_next_def)
  qed
qed

text \<open>
  Claim C10. For every key, the constructor of the tokenizer throws
  \<^verbatim>\<open>KeyException\<close> exactly when the key is empty or one of its
  separator-delimited segments is empty, which for a non-empty key means a leading,
  a trailing or a doubled separator. When the constructor succeeds, the first calls
  of \<^verbatim>\<open>next()\<close> return the segments of the key from left to right, one per
  call, and every call after them returns \<^verbatim>\<open>nullopt\<close>.
\<close>

theorem tokenizer_segments:
  "((\<exists>e. mkTokenizer sep key = Inl e) \<longleftrightarrow> key = [] \<or> [] \<in> set (segments sep key)) \<and>
   (key \<noteq> [] \<longrightarrow>
      ([] \<in> set (segments sep key) \<longleftrightarrow> hd key = sep \<or> last key = sep \<or> doubled sep key)) \<and>
   (\<forall>t k. mkTokenizer sep key = Inr t \<longrightarrow>
      next_calls (length (segments sep key) + k) t =
        map Some (segments sep key) @ replicate k None)"
proof (intro conjI allI impI)
  show "(\<exists>e. mkTokenizer sep key = Inl e) \<longleftrightarrow> key = [] \<or> [] \<in> set (segments sep key)"
    by (simp add: mkTokenizer_segments)
next
  assume "key \<noteq> []"
  then show "[] \<in> set (segments sep key) \<longleftrightarrow> hd key = sep \<or> last key = sep \<or> doubled sep key"
    by (rule empty_segment_iff)
next
  fix t k
  assume "mkTokenizer sep key = Inr t"
  then have "tk_tokens t = segments sep key"
    by (auto simp: mkTokenizer_segments split: if_splits)
  then show "next_calls (length (segments sep key) + k) t =
      map Some (segments sep key) @ replicate k None"
    by (simp add: next_calls_tokens)
qed

theorem tokenizer_segments_witness:
  "mkTokenizer (CHR ''.'') ''a.bc.d'' =
     Inr \<lparr>tk_key = ''a.bc.d'', tk_token = [], tk_tokens = [''a'', ''bc'', ''d'']\<rparr> \<and>
   next_calls 5 \<lparr>tk_key = ''a.bc.d'', tk_token = [], tk_tokens = [''a'', ''bc'', ''d'']\<rparr> =
     [Some ''a'', Some ''bc'', Some ''d'', None, None] \<and>
   (\<exists>e. mkTokenizer (CHR ''.'') ''a..d'' = Inl e) \<and>
   doubled (CHR ''.'') ''a..d''"
proof -
  let ?t = "\<lparr>tk_key = ''a.bc.d'', tk_token = [], tk_tokens = [''a'', ''bc'', ''d'']\<rparr>"
  have mk: "mkTokenizer (CHR ''.'') ''a.bc.d'' = Inr ?t"
    by (simp add: mkTokenizer_def saveToken_def)
  have segs: "segments (CHR ''.'') ''a.bc.d'' = [''a'', ''bc'', ''d'']"
    by simp
  have calls: "next_calls 5 ?t = [Some ''a'', Some ''bc'', Some ''d'', None, None]"
    using tokenizer_segments [of "CHR ''.''" "''a.bc.d''"] mk segs
    by (auto dest!: spec [of _ ?t] spec [of _ "2::nat"] simp: numeral_eq_Suc)
  have segs': "segments (CHR ''.'') ''a..d'' = [''a'', [], ''d'']"
    by simp
  have thrown: "\<exists>e. mkTokenizer (CHR ''.'') ''a..d'' = Inl e"
    using tokenizer_segments [of "CHR ''.''" "''a..d''"] segs' by simp
  have dbl: "doubled (CHR ''.'') ''a..d''"
    using tokenizer_segments [of "CHR ''.''" "''a..d''"] segs' by simp
  from mk calls thrown dbl show ?thesis by blast
qed

section \<open>The handler: proofs\<close>

subsection \<open>The calls and the fields of the response\<close>

lemma fst_accountHolds [simp]:
  "fst (accountHolds b s a c i) = [AccountHolds s a c i]"
  by (simp add: accountHolds_def)

lemma isXRP_accountHolds [simp]:
  "isXRP_amount (snd (accountHolds b s a c i)) = isXRP c"
  by (simp add: accountHolds_def isXRP_amount_def xrpIssue_def isXRP_def)

text \<open>The calls of lines 76-140, in order.\<close>

lemma assemble_reads:
  "fst (assemble x b input lgrInfo ammKey amm) =
     [AccountHolds (seq lgrInfo) (sfAccount amm) (currency (issue1 input)) (account (issue1 input)),
      AccountHolds (seq lgrInfo) (sfAccount amm) (currency (issue2 input)) (account (issue2 input))] @
     (case accountID input of
        Some lp \<Rightarrow>
          [AccountHolds (seq lgrInfo) lp
             (ammLPTCurrency x (currency (sfAsset amm)) (currency (sfAsset2 amm))) (sfAccount amm)]
      | None \<Rightarrow> []) @
     (if isXRP (currency (issue1 input)) then []
      else [IsFrozen (seq lgrInfo) (sfAccount amm) (currency (issue1 input)) (account (issue1 input))]) @
     (if isXRP (currency (issue2 input)) then []
      else [IsFrozen (seq lgrInfo) (sfAccount amm) (currency (issue2 input)) (account (issue2 input))])"
  by (simp add: assemble_def getAmmPoolHolds_def getAmmLpHolds_sle_def getAmmLpHolds_def
      Let_def split_beta split: option.splits)

lemma assemble_asset1Frozen:
  "asset1Frozen (snd (assemble x b input lgrInfo ammKey amm)) =
     (if isXRP (currency (issue1 input)) then None
      else Some (isFrozen b (seq lgrInfo) (sfAccount amm) (currency (issue1 input))
                   (account (issue1 input))))"
  by (simp add: assemble_def getAmmPoolHolds_def Let_def split_beta defaultOutput_def
      split: option.splits)

lemma assemble_asset2Frozen:
  "asset2Frozen (snd (assemble x b input lgrInfo ammKey amm)) =
     (if isXRP (currency (issue2 input)) then None
      else Some (isFrozen b (seq lgrInfo) (sfAccount amm) (currency (issue2 input))
                   (account (issue2 input))))"
  by (simp add: assemble_def getAmmPoolHolds_def Let_def split_beta defaultOutput_def
      split: option.splits)

lemma assemble_auctionSlot:
  "auctionSlot (snd (assemble x b input lgrInfo ammKey amm)) =
     (case sfAuctionSlot amm of
        None \<Rightarrow> JNull
      | Some slot \<Rightarrow>
          (case as_Account slot of
             None \<Rightarrow> JNull
           | Some slotAccount \<Rightarrow> auctionJson x lgrInfo slot slotAccount))"
  by (simp add: assemble_def getAmmPoolHolds_def Let_def split_beta defaultOutput_def
      split: option.splits)

lemma assemble_lpToken:
  "lpToken (snd (assemble x b input lgrInfo ammKey amm)) =
     (case accountID input of
        None \<Rightarrow> getJson x (sfLPTokenBalance amm)
      | Some lp \<Rightarrow> getJson x (snd (getAmmLpHolds_sle x b (seq lgrInfo) amm lp)))"
  by (simp add: assemble_def getAmmPoolHolds_def Let_def split_beta defaultOutput_def
      split: option.splits)

lemma assemble_ledgerIndex:
  "ledgerIndexOut (snd (assemble x b input lgrInfo ammKey amm)) = seq lgrInfo"
  by (simp add: assemble_def getAmmPoolHolds_def Let_def split_beta defaultOutput_def
      split: option.splits)

lemma auctionJson_not_null: "auctionJson x lgrInfo slot a \<noteq> JNull"
  by (simp add: auctionJson_def Let_def)

subsection \<open>What a successful request went through\<close>

lemma process_at_success:
  assumes "process_at x b input lgrInfo = (reads, Returned (Inr out))"
  shows "\<exists>amm. amm_entry x b input lgrInfo = Some amm \<and>
     reads =
       (case accountID input of
          None \<Rightarrow> []
        | Some a \<Rightarrow> [FetchLedgerObject (keylet_account x a) (seq lgrInfo)]) @
       [FetchLedgerObject (keylet_amm x (issue1 input) (issue2 input)) (seq lgrInfo),
        FetchLedgerObject (keylet_account x (sfAccount amm)) (seq lgrInfo)] @
       fst (assemble x b input lgrInfo (keylet_amm x (issue1 input) (issue2 input)) amm) \<and>
     out = snd (assemble x b input lgrInfo (keylet_amm x (issue1 input) (issue2 input)) amm)"
  using assms
  by (auto simp: process_at_def amm_entry_def Let_def split_beta
      split: option.splits if_splits)

lemma process_success:
  assumes "process x b input = (reads, Returned (Inr out))"
  shows "\<exists>rng lgrInfo r.
     fetchLedgerRange b = Some rng \<and>
     getLedgerInfoFromHashOrSeq b (ledgerHash input) (ledgerIndex input) (maxSequence rng) =
       Inr lgrInfo \<and>
     resolved_ledger b input = Some lgrInfo \<and>
     reads = [FetchLedgerRange,
              GetLedgerInfo (ledgerHash input) (ledgerIndex input) (maxSequence rng)] @ r \<and>
     process_at x b input lgrInfo = (r, Returned (Inr out))"
  using assms
  by (auto simp: process_def resolved_ledger_def Let_def split_beta prod_eq_iff
      split: option.splits sum.splits)

subsection \<open>The serialised response\<close>

lemma amm_member_asset_frozen:
  "amm_member out ''asset_frozen'' = map_option JBool (asset1Frozen out)"
  by (simp add: amm_member_def value_from_def jset_def Let_def split: option.splits)

lemma amm_member_asset2_frozen:
  "amm_member out ''asset2_frozen'' = map_option JBool (asset2Frozen out)"
  by (simp add: amm_member_def value_from_def jset_def Let_def split: option.splits)

lemma amm_member_auction_slot:
  "amm_member out ''auction_slot'' =
     (if auctionSlot out \<noteq> JNull then Some (auctionSlot out) else None)"
  by (simp add: amm_member_def value_from_def jset_def Let_def split: option.splits)

lemma amm_member_lp_token:
  "amm_member out ''lp_token'' = Some (lpToken out)"
  by (simp add: amm_member_def value_from_def jset_def Let_def split: option.splits)

subsection \<open>The concrete request\<close>

lemmas ex_defs =
  ex_lib_def ex_backend_def ex_input_def ex_amm_def ex_reads_def ex_output_def
  ex_stranger_input_def ex_no_range_def ex_auction_amm_def ex_auction_lib_def
  ex_late_backend_def

lemmas handler_defs =
  process_def process_at_def assemble_def getAmmPoolHolds_def getAmmLpHolds_sle_def
  getAmmLpHolds_def accountHolds_def isXRP_amount_def isXRP_def xrpIssue_def xrpCurrency_def
  xrpAccount_def defaultOutput_def

lemma ex_run: "process ex_lib ex_backend ex_input = (ex_reads, Returned (Inr ex_output))"
  by (simp add: handler_defs ex_defs)

lemma ex_resolved:
  "resolved_ledger ex_backend ex_input = Some \<lparr>seq = 100, parentCloseTime = 43200\<rparr>"
  by (simp add: resolved_ledger_def ex_defs)

lemma ex_amm_entry:
  "amm_entry ex_lib ex_backend ex_input \<lparr>seq = 100, parentCloseTime = 43200\<rparr> = Some ex_amm"
  by (simp add: amm_entry_def ex_lib_def ex_backend_def ex_input_def)

subsection \<open>One sequence number for all reads of a request\<close>

text \<open>
  Claim C1. When a request ends with a response, the request first asked the store for
  its range and for the ledger of the request, and every later call into the store
  (the check that the account of the request exists, the fetch of the AMM entry, the
  fetch of the account that owns it, the two reads of the pool holdings, the read of
  the LP-token holding, each freeze check) was made with the sequence number of that
  ledger; the response reports the same sequence number.
\<close>

theorem reads_pinned:
  assumes "process x b input = (reads, Returned (Inr out))"
  shows "\<exists>rng lgrInfo.
     fetchLedgerRange b = Some rng \<and>
     getLedgerInfoFromHashOrSeq b (ledgerHash input) (ledgerIndex input) (maxSequence rng) =
       Inr lgrInfo \<and>
     take 2 reads =
       [FetchLedgerRange, GetLedgerInfo (ledgerHash input) (ledgerIndex input) (maxSequence rng)] \<and>
     (\<forall>r \<in> set (drop 2 reads). read_sequence r = Some (seq lgrInfo)) \<and>
     ledgerIndexOut out = seq lgrInfo"
proof -
  from process_success [OF assms] obtain rng lgrInfo r where
    rng: "fetchLedgerRange b = Some rng" and
    info: "getLedgerInfoFromHashOrSeq b (ledgerHash input) (ledgerIndex input) (maxSequence rng) =
       Inr lgrInfo" and
    reads: "reads = [FetchLedgerRange,
              GetLedgerInfo (ledgerHash input) (ledgerIndex input) (maxSequence rng)] @ r" and
    at: "process_at x b input lgrInfo = (r, Returned (Inr out))"
    by blast
  from process_at_success [OF at] obtain amm where
    r: "r = (case accountID input of
          None \<Rightarrow> []
        | Some a \<Rightarrow> [FetchLedgerObject (keylet_account x a) (seq lgrInfo)]) @
       [FetchLedgerObject (keylet_amm x (issue1 input) (issue2 input)) (seq lgrInfo),
        FetchLedgerObject (keylet_account x (sfAccount amm)) (seq lgrInfo)] @
       fst (assemble x b input lgrInfo (keylet_amm x (issue1 input) (issue2 input)) amm)" and
    out: "out = snd (assemble x b input lgrInfo (keylet_amm x (issue1 input) (issue2 input)) amm)"
    by blast
  have "\<forall>q \<in> set r. read_sequence q = Some (seq lgrInfo)"
    unfolding r assemble_reads by (auto split: option.splits)
  moreover have "ledgerIndexOut out = seq lgrInfo"
    unfolding out by (rule assemble_ledgerIndex)
  ultimately show ?thesis
    using rng info reads by simp
qed

theorem reads_pinned_witness:
  "process ex_lib ex_backend ex_input = (ex_reads, Returned (Inr ex_output)) \<and>
   list_all (\<lambda>r. read_sequence r = Some 100) (drop 2 ex_reads) \<and>
   ledgerIndexOut ex_output = 100"
proof -
  from reads_pinned [OF ex_run] obtain rng lgrInfo where
    rng: "fetchLedgerRange ex_backend = Some rng" and
    info: "getLedgerInfoFromHashOrSeq ex_backend (ledgerHash ex_input) (ledgerIndex ex_input)
             (maxSequence rng) = Inr lgrInfo" and
    first: "take 2 ex_reads =
       [FetchLedgerRange,
        GetLedgerInfo (ledgerHash ex_input) (ledgerIndex ex_input) (maxSequence rng)]" and
    pinned: "\<forall>r \<in> set (drop 2 ex_reads). read_sequence r = Some (seq lgrInfo)" and
    idx: "ledgerIndexOut ex_output = seq lgrInfo"
    by (elim exE conjE)
  from idx have "seq lgrInfo = 100"
    by (simp add: ex_output_def)
  with pinned idx have "list_all (\<lambda>r. read_sequence r = Some 100) (drop 2 ex_reads)"
    by (simp add: list_all_iff)
  with ex_run idx \<open>seq lgrInfo = 100\<close> show ?thesis by simp
qed

subsection \<open>The issuer of an asset descriptor\<close>

text \<open>
  Whatever the descriptor holds, the asset that \<^verbatim>\<open>getIssue\<close> returns has the
  account of the native asset: the member \<open>issuer\<close> is never read.
\<close>

lemma getIssue_account: "getIssue x request = Some i \<Longrightarrow> account i = xrpAccount"
  by (auto simp: getIssue_def Let_def xrpIssue_def split: option.splits json.splits)

text \<open>
  Claim C3, at a request whose first asset names an issuer: the claim asks for the
  account of that issuer in \<^verbatim>\<open>input.issue1\<close>; the code returns the asset with
  the currency of the descriptor and the account of the native asset, for every
  \<^verbatim>\<open>to_currency\<close>.
\<close>

theorem issuer_is_ignored:
  "request_issues x
     (JObject
        [(''asset'', JObject [(''currency'', JString ''USD''),
                              (''issuer'', JString ''rHb9CJAWyB4rj91VRWn96DkukG4bwdtyTh'')]),
         (''asset2'', JObject [(''currency'', JString ''XRP'')])]) =
   Some (\<lparr>currency = to_currency x xrpCurrency ''USD'', account = xrpAccount\<rparr>,
         \<lparr>currency = to_currency x xrpCurrency ''XRP'', account = xrpAccount\<rparr>)"
  by (simp add: request_issues_def getIssue_def xrpIssue_def)

subsection \<open>The auction-slot projector\<close>

lemma uint_ucast_32_64: "uint (ucast (w :: 32 word) :: 64 word) = uint w"
  by (simp add: uint_up_ucast is_up)

lemma uint_word_of_int_8: "0 \<le> i \<Longrightarrow> i < 256 \<Longrightarrow> uint (word_of_int i :: 8 word) = i"
  by (simp add: uint_word_of_int take_bit_int_eq_self)

text \<open>Line 113: the member \<open>time_interval\<close> of the auction object.\<close>

lemma auctionJson_time_interval:
  "at_key (auctionJson x lgrInfo slot a) ''time_interval'' =
     Some (JInt (time_interval (ammAuctionTimeSlot x (ucast (parentCloseTime lgrInfo)) slot)))"
  by (simp add: auctionJson_def jset_def Let_def split: option.splits)

text \<open>What the handler writes for the value the projector of the specification returns.\<close>

lemma time_interval_spec:
  "time_interval (ammAuctionTimeSlot_spec d (ucast (closeTime :: 32 word)) slot) =
     (case auctionTimeSlot_spec 20 d (uint (as_Expiration slot) - 20 * d) (uint closeTime) of
        Some index \<Rightarrow> index
      | None \<Rightarrow> AUCTION_SLOT_TIME_INTERVALS)"
  by (auto simp: ammAuctionTimeSlot_spec_def auctionTimeSlot_spec_def time_interval_def
      AUCTION_SLOT_TIME_INTERVALS_def uint_ucast_32_64 uint_word_of_int_8 Let_def)

lemma index_lower: "0 < (d::int) \<Longrightarrow> k * d \<le> a \<Longrightarrow> k \<le> a div d"
proof -
  assume d: "0 < d" and le: "k * d \<le> a"
  from le d have "(k * d) div d \<le> a div d"
    by (rule zdiv_mono1)
  with d show ?thesis by simp
qed

text \<open>
  Claim C4. Let the library's projector be the one of the specification, for a positive
  sub-interval duration \<open>d\<close>, and let a request end with a response for an AMM entry
  whose auction slot has an account. With the start \<open>s\<close> of the slot's window, the
  close time \<open>t\<close> of the parent ledger and the index floor((t - s) / d): when the
  index lies between 0 and the last sub-interval, 19 of the 20, the projector returns the
  index and the output has it as \<open>time_interval\<close>; when the index is negative or
  exceeds the last sub-interval, the projector returns the sentinel and the output has
  the constant \<^verbatim>\<open>AUCTION_SLOT_TIME_INTERVALS\<close>. In particular a close time at the
  midpoint of the window gives index 10, and a close time after the end of the window
  gives the sentinel.
\<close>

theorem auction_time_slot_projection:
  assumes "process x b input = (reads, Returned (Inr out))"
    and "ammAuctionTimeSlot x = ammAuctionTimeSlot_spec d"
    and "0 < d"
  shows "\<exists>lgrInfo amm.
     resolved_ledger b input = Some lgrInfo \<and>
     amm_entry x b input lgrInfo = Some amm \<and>
     (\<forall>slot a s t index.
        sfAuctionSlot amm = Some slot \<longrightarrow>
        as_Account slot = Some a \<longrightarrow>
        s = uint (as_Expiration slot) - 20 * d \<longrightarrow>
        t = uint (parentCloseTime lgrInfo) \<longrightarrow>
        index = (t - s) div d \<longrightarrow>
          (0 \<le> index \<and> index \<le> 19 \<longrightarrow>
             auctionTimeSlot_spec 20 d s t = Some index \<and>
             auction_time_interval out = Some (JInt index)) \<and>
          (index < 0 \<or> 19 < index \<longrightarrow>
             auctionTimeSlot_spec 20 d s t = None \<and>
             auction_time_interval out = Some (JInt AUCTION_SLOT_TIME_INTERVALS)) \<and>
          (t = s + 10 * d \<longrightarrow>
             auctionTimeSlot_spec 20 d s t = Some 10 \<and>
             auction_time_interval out = Some (JInt 10)) \<and>
          (s + 20 * d < t \<longrightarrow>
             auctionTimeSlot_spec 20 d s t = None \<and>
             auction_time_interval out = Some (JInt AUCTION_SLOT_TIME_INTERVALS)))"
proof -
  from process_success [OF assms(1)] obtain lgrInfo r where
    res: "resolved_ledger b input = Some lgrInfo" and
    at: "process_at x b input lgrInfo = (r, Returned (Inr out))"
    by blast
  from process_at_success [OF at] obtain amm where
    amm: "amm_entry x b input lgrInfo = Some amm" and
    out: "out = snd (assemble x b input lgrInfo (keylet_amm x (issue1 input) (issue2 input)) amm)"
    by blast
  have slot: "(0 \<le> index \<and> index \<le> 19 \<longrightarrow>
             auctionTimeSlot_spec 20 d s t = Some index \<and>
             auction_time_interval out = Some (JInt index)) \<and>
          (index < 0 \<or> 19 < index \<longrightarrow>
             auctionTimeSlot_spec 20 d s t = None \<and>
             auction_time_interval out = Some (JInt AUCTION_SLOT_TIME_INTERVALS)) \<and>
          (t = s + 10 * d \<longrightarrow>
             auctionTimeSlot_spec 20 d s t = Some 10 \<and>
             auction_time_interval out = Some (JInt 10)) \<and>
          (s + 20 * d < t \<longrightarrow>
             auctionTimeSlot_spec 20 d s t = None \<and>
             auction_time_interval out = Some (JInt AUCTION_SLOT_TIME_INTERVALS))"
    if present: "sfAuctionSlot amm = Some slot" "as_Account slot = Some a"
      and s: "s = uint (as_Expiration slot) - 20 * d"
      and t: "t = uint (parentCloseTime lgrInfo)"
      and index: "index = (t - s) div d"
    for slot a s t index
  proof -
    have member: "amm_member out ''auction_slot'' = Some (auctionJson x lgrInfo slot a)"
      unfolding amm_member_auction_slot out assemble_auctionSlot
      using present by (simp add: auctionJson_not_null)
    have written: "auction_time_interval out =
        Some (JInt (case auctionTimeSlot_spec 20 d s t of
                      Some i \<Rightarrow> i
                    | None \<Rightarrow> AUCTION_SLOT_TIME_INTERVALS))"
      unfolding auction_time_interval_def member
      by (simp add: auctionJson_time_interval assms(2) time_interval_spec s t)
    have inside: "auctionTimeSlot_spec 20 d s t = Some index" if "0 \<le> index \<and> index \<le> 19"
      using that by (simp add: auctionTimeSlot_spec_def index)
    have outside: "auctionTimeSlot_spec 20 d s t = None" if "index < 0 \<or> 19 < index"
      using that by (auto simp: auctionTimeSlot_spec_def index)
    have mid: "index = 10" if "t = s + 10 * d"
      using that assms(3) by (simp add: index)
    have late: "19 < index" if "s + 20 * d < t"
    proof -
      from that have "20 * d \<le> t - s" by simp
      with assms(3) have "20 \<le> (t - s) div d" by (rule index_lower)
      then show ?thesis by (simp add: index)
    qed
    show ?thesis
      using inside outside mid late by (auto simp: written)
  qed
  from res amm slot show ?thesis by blast
qed

lemma ex_auction_run:
  "\<exists>out. process ex_auction_lib ex_backend ex_input = (ex_reads, Returned (Inr out))"
  by (simp add: handler_defs ex_defs)

lemma ex_late_run:
  "\<exists>out. process ex_auction_lib ex_late_backend ex_input = (ex_reads, Returned (Inr out))"
  by (simp add: handler_defs ex_defs)

theorem auction_time_slot_witness:
  "(\<exists>out. process ex_auction_lib ex_backend ex_input = (ex_reads, Returned (Inr out)) \<and>
       auction_time_interval out = Some (JInt 10)) \<and>
   auctionTimeSlot_spec 20 4320 0 43200 = Some 10 \<and>
   (\<exists>out. process ex_auction_lib ex_late_backend ex_input = (ex_reads, Returned (Inr out)) \<and>
       auction_time_interval out = Some (JInt 20)) \<and>
   auctionTimeSlot_spec 20 4320 0 86401 = None"
proof -
  have lib: "ammAuctionTimeSlot ex_auction_lib = ammAuctionTimeSlot_spec 4320"
    by (simp add: ex_auction_lib_def)
  have d: "(0::int) < 4320" by simp
  have slot: "sfAuctionSlot ex_auction_amm =
      Some \<lparr>as_Account = Some 7,
            as_Price = \<lparr>amt_issue = \<lparr>currency = 3, account = 5\<rparr>, amt_value = 0\<rparr>,
            as_DiscountedFee = 0, as_Expiration = 86400, as_AuthAccounts = None\<rparr>"
    by (simp add: ex_auction_amm_def)
  from ex_auction_run obtain out where
    run: "process ex_auction_lib ex_backend ex_input = (ex_reads, Returned (Inr out))"
    by blast
  from auction_time_slot_projection [OF run lib d] obtain lgrInfo amm where
    res: "resolved_ledger ex_backend ex_input = Some lgrInfo" and
    amm: "amm_entry ex_auction_lib ex_backend ex_input lgrInfo = Some amm" and
    every: "\<forall>slot a s t index.
        sfAuctionSlot amm = Some slot \<longrightarrow>
        as_Account slot = Some a \<longrightarrow>
        s = uint (as_Expiration slot) - 20 * 4320 \<longrightarrow>
        t = uint (parentCloseTime lgrInfo) \<longrightarrow>
        index = (t - s) div 4320 \<longrightarrow>
          (0 \<le> index \<and> index \<le> 19 \<longrightarrow>
             auctionTimeSlot_spec 20 4320 s t = Some index \<and>
             auction_time_interval out = Some (JInt index)) \<and>
          (index < 0 \<or> 19 < index \<longrightarrow>
             auctionTimeSlot_spec 20 4320 s t = None \<and>
             auction_time_interval out = Some (JInt AUCTION_SLOT_TIME_INTERVALS)) \<and>
          (t = s + 10 * 4320 \<longrightarrow>
             auctionTimeSlot_spec 20 4320 s t = Some 10 \<and>
             auction_time_interval out = Some (JInt 10)) \<and>
          (s + 20 * 4320 < t \<longrightarrow>
             auctionTimeSlot_spec 20 4320 s t = None \<and>
             auction_time_interval out = Some (JInt AUCTION_SLOT_TIME_INTERVALS))"
    by (elim exE conjE)
  from res have info: "lgrInfo = \<lparr>seq = 100, parentCloseTime = 43200\<rparr>"
    by (simp add: ex_resolved)
  from amm have entry: "amm = ex_auction_amm"
    by (simp add: info amm_entry_def ex_auction_lib_def ex_lib_def ex_backend_def ex_input_def)
  have held: "sfAuctionSlot amm =
      Some \<lparr>as_Account = Some 7,
            as_Price = \<lparr>amt_issue = \<lparr>currency = 3, account = 5\<rparr>, amt_value = 0\<rparr>,
            as_DiscountedFee = 0, as_Expiration = 86400, as_AuthAccounts = None\<rparr>"
    using entry slot by simp
  have first: "auctionTimeSlot_spec 20 4320 0 43200 = Some 10 \<and>
      auction_time_interval out = Some (JInt 10)"
    using every [rule_format, OF held _ refl refl refl] by (simp add: info)
  from ex_late_run obtain out' where
    run': "process ex_auction_lib ex_late_backend ex_input = (ex_reads, Returned (Inr out'))"
    by blast
  from auction_time_slot_projection [OF run' lib d] obtain lgrInfo' amm' where
    res': "resolved_ledger ex_late_backend ex_input = Some lgrInfo'" and
    amm': "amm_entry ex_auction_lib ex_late_backend ex_input lgrInfo' = Some amm'" and
    every': "\<forall>slot a s t index.
        sfAuctionSlot amm' = Some slot \<longrightarrow>
        as_Account slot = Some a \<longrightarrow>
        s = uint (as_Expiration slot) - 20 * 4320 \<longrightarrow>
        t = uint (parentCloseTime lgrInfo') \<longrightarrow>
        index = (t - s) div 4320 \<longrightarrow>
          (0 \<le> index \<and> index \<le> 19 \<longrightarrow>
             auctionTimeSlot_spec 20 4320 s t = Some index \<and>
             auction_time_interval out' = Some (JInt index)) \<and>
          (index < 0 \<or> 19 < index \<longrightarrow>
             auctionTimeSlot_spec 20 4320 s t = None \<and>
             auction_time_interval out' = Some (JInt AUCTION_SLOT_TIME_INTERVALS)) \<and>
          (t = s + 10 * 4320 \<longrightarrow>
             auctionTimeSlot_spec 20 4320 s t = Some 10 \<and>
             auction_time_interval out' = Some (JInt 10)) \<and>
          (s + 20 * 4320 < t \<longrightarrow>
             auctionTimeSlot_spec 20 4320 s t = None \<and>
             auction_time_interval out' = Some (JInt AUCTION_SLOT_TIME_INTERVALS))"
    by (elim exE conjE)
  from res' have info': "lgrInfo' = \<lparr>seq = 100, parentCloseTime = 86401\<rparr>"
    by (simp add: resolved_ledger_def ex_late_backend_def ex_backend_def ex_input_def)
  from amm' have entry': "amm' = ex_auction_amm"
    by (simp add: info' amm_entry_def ex_auction_lib_def ex_lib_def ex_late_backend_def
        ex_backend_def ex_input_def)
  have held': "sfAuctionSlot amm' =
      Some \<lparr>as_Account = Some 7,
            as_Price = \<lparr>amt_issue = \<lparr>currency = 3, account = 5\<rparr>, amt_value = 0\<rparr>,
            as_DiscountedFee = 0, as_Expiration = 86400, as_AuthAccounts = None\<rparr>"
    using entry' slot by simp
  have second: "auctionTimeSlot_spec 20 4320 0 86401 = None \<and>
      auction_time_interval out' = Some (JInt 20)"
    using every' [rule_format, OF held' _ refl refl refl]
    by (simp add: info' AUCTION_SLOT_TIME_INTERVALS_def)
  from run first run' second show ?thesis by blast
qed

subsection \<open>The freeze flags in the output\<close>

text \<open>
  Claim C5. In the output of a request that ends with a response, the member
  \<open>asset_frozen\<close> of the \<open>amm\<close> object is present exactly when the first asset
  of the request is not the native asset, and \<open>asset2_frozen\<close> exactly when the
  second is not; for the native asset the member is absent. A member that is present
  is a boolean.
\<close>

theorem frozen_member_iff_non_native:
  assumes "process x b input = (reads, Returned (Inr out))"
  shows "(amm_member out ''asset_frozen'' \<noteq> None \<longleftrightarrow> \<not> isXRP (currency (issue1 input))) \<and>
         (amm_member out ''asset2_frozen'' \<noteq> None \<longleftrightarrow> \<not> isXRP (currency (issue2 input))) \<and>
         (\<forall>v. amm_member out ''asset_frozen'' = Some v \<longrightarrow> (\<exists>f. v = JBool f)) \<and>
         (\<forall>v. amm_member out ''asset2_frozen'' = Some v \<longrightarrow> (\<exists>f. v = JBool f))"
proof -
  from process_success [OF assms] obtain lgrInfo r where
    at: "process_at x b input lgrInfo = (r, Returned (Inr out))"
    by blast
  from process_at_success [OF at] obtain amm where
    out: "out = snd (assemble x b input lgrInfo (keylet_amm x (issue1 input) (issue2 input)) amm)"
    by blast
  show ?thesis
    unfolding amm_member_asset_frozen amm_member_asset2_frozen out
      assemble_asset1Frozen assemble_asset2Frozen
    by auto
qed

theorem frozen_member_witness:
  "process ex_lib ex_backend ex_input = (ex_reads, Returned (Inr ex_output)) \<and>
   \<not> isXRP (currency (issue1 ex_input)) \<and>
   amm_member ex_output ''asset_frozen'' = Some (JBool False) \<and>
   isXRP (currency (issue2 ex_input)) \<and>
   amm_member ex_output ''asset2_frozen'' = None"
proof -
  have native: "\<not> isXRP (currency (issue1 ex_input))" "isXRP (currency (issue2 ex_input))"
    by (simp_all add: ex_input_def isXRP_def xrpCurrency_def)
  from frozen_member_iff_non_native [OF ex_run] native
  have "amm_member ex_output ''asset_frozen'' \<noteq> None"
    and "amm_member ex_output ''asset2_frozen'' = None"
    by simp_all
  moreover have "asset1Frozen ex_output = Some False"
    by (simp add: ex_output_def)
  ultimately show ?thesis
    using ex_run native by (simp add: amm_member_asset_frozen)
qed

subsection \<open>The range of the store\<close>

text \<open>The first call of every request asks the store for its known range.\<close>

lemma process_first_call: "\<exists>rest. fst (process x b input) = FetchLedgerRange # rest"
  by (simp add: process_def Let_def split_beta split: option.splits sum.splits)


subsection \<open>The account of the request\<close>

text \<open>
  Claim C7. When the request names an account and the store has no object for that
  account at the sequence of the resolved ledger, the request ends with
  \<^verbatim>\<open>rpcACT_NOT_FOUND\<close>, and the calls into the store are the range, the lookup of
  the ledger and the fetch of that account: the AMM entry is not fetched, and nothing
  is decoded or read after it.
\<close>

theorem account_missing_not_found:
  assumes "fetchLedgerRange b = Some rng"
    and "getLedgerInfoFromHashOrSeq b (ledgerHash input) (ledgerIndex input) (maxSequence rng) =
           Inr lgrInfo"
    and "accountID input = Some a"
    and "fetchLedgerObject b (keylet_account x a) (seq lgrInfo) = None"
  shows "process x b input =
     ([FetchLedgerRange,
       GetLedgerInfo (ledgerHash input) (ledgerIndex input) (maxSequence rng),
       FetchLedgerObject (keylet_account x a) (seq lgrInfo)],
      Returned (Inl (Status rpcACT_NOT_FOUND)))"
  using assms by (simp add: process_def process_at_def)

theorem account_missing_witness:
  "accountID ex_stranger_input = Some 9 \<and>
   fetchLedgerObject ex_backend (keylet_account ex_lib 9) 100 = None \<and>
   process ex_lib ex_backend ex_stranger_input =
     ([FetchLedgerRange, GetLedgerInfo None None 100, FetchLedgerObject 10 100],
      Returned (Inl (Status rpcACT_NOT_FOUND)))"
proof -
  have rng: "fetchLedgerRange ex_backend = Some \<lparr>minSequence = 1, maxSequence = 100\<rparr>"
    by (simp add: ex_backend_def)
  have info: "getLedgerInfoFromHashOrSeq ex_backend (ledgerHash ex_stranger_input)
      (ledgerIndex ex_stranger_input) (maxSequence \<lparr>minSequence = 1, maxSequence = 100\<rparr>) =
      Inr \<lparr>seq = 100, parentCloseTime = 43200\<rparr>"
    by (simp add: ex_backend_def)
  have acct: "accountID ex_stranger_input = Some 9"
    by (simp add: ex_stranger_input_def)
  have missing: "fetchLedgerObject ex_backend (keylet_account ex_lib 9)
      (seq \<lparr>seq = 100, parentCloseTime = 43200\<rparr>) = None"
    by (simp add: ex_backend_def ex_lib_def)
  have key: "keylet_account ex_lib 9 = 10"
    by (simp add: ex_lib_def)
  from account_missing_not_found [OF rng info acct missing] acct missing key
  show ?thesis
    by (simp add: ex_stranger_input_def ex_input_def)
qed

subsection \<open>The LP-token amount\<close>

text \<open>
  Claim C8. In a request that ends with a response and names no account, the LP-token
  amount of the response is the \<open>LPTokenBalance\<close> field of the decoded AMM entry, and
  apart from the freeze checks the calls into the store are the range, the lookup of the
  ledger, the two fetches and the two reads of the pool holdings: no call reads an
  LP-token holding. When the request names an account, the same calls are made, with
  the fetch of that account before them and one read of the LP-token holding of that
  account after them.
\<close>

theorem lp_token_without_holder:
  assumes "process x b input = (reads, Returned (Inr out))"
  shows "\<exists>rng lgrInfo amm.
     fetchLedgerRange b = Some rng \<and>
     resolved_ledger b input = Some lgrInfo \<and>
     amm_entry x b input lgrInfo = Some amm \<and>
     (accountID input = None \<longrightarrow>
        lpToken out = getJson x (sfLPTokenBalance amm) \<and>
        amm_member out ''lp_token'' = Some (getJson x (sfLPTokenBalance amm)) \<and>
        filter (\<lambda>r. \<not> is_IsFrozen r) reads =
          [FetchLedgerRange,
           GetLedgerInfo (ledgerHash input) (ledgerIndex input) (maxSequence rng),
           FetchLedgerObject (keylet_amm x (issue1 input) (issue2 input)) (seq lgrInfo),
           FetchLedgerObject (keylet_account x (sfAccount amm)) (seq lgrInfo),
           AccountHolds (seq lgrInfo) (sfAccount amm) (currency (issue1 input))
             (account (issue1 input)),
           AccountHolds (seq lgrInfo) (sfAccount amm) (currency (issue2 input))
             (account (issue2 input))]) \<and>
     (\<forall>lp. accountID input = Some lp \<longrightarrow>
        filter (\<lambda>r. \<not> is_IsFrozen r) reads =
          [FetchLedgerRange,
           GetLedgerInfo (ledgerHash input) (ledgerIndex input) (maxSequence rng),
           FetchLedgerObject (keylet_account x lp) (seq lgrInfo),
           FetchLedgerObject (keylet_amm x (issue1 input) (issue2 input)) (seq lgrInfo),
           FetchLedgerObject (keylet_account x (sfAccount amm)) (seq lgrInfo),
           AccountHolds (seq lgrInfo) (sfAccount amm) (currency (issue1 input))
             (account (issue1 input)),
           AccountHolds (seq lgrInfo) (sfAccount amm) (currency (issue2 input))
             (account (issue2 input)),
           AccountHolds (seq lgrInfo) lp
             (ammLPTCurrency x (currency (sfAsset amm)) (currency (sfAsset2 amm)))
             (sfAccount amm)])"
proof -
  from process_success [OF assms] obtain rng lgrInfo r where
    rng: "fetchLedgerRange b = Some rng" and
    res: "resolved_ledger b input = Some lgrInfo" and
    reads: "reads = [FetchLedgerRange,
              GetLedgerInfo (ledgerHash input) (ledgerIndex input) (maxSequence rng)] @ r" and
    at: "process_at x b input lgrInfo = (r, Returned (Inr out))"
    by blast
  from process_at_success [OF at] obtain amm where
    amm: "amm_entry x b input lgrInfo = Some amm" and
    r: "r = (case accountID input of
          None \<Rightarrow> []
        | Some a \<Rightarrow> [FetchLedgerObject (keylet_account x a) (seq lgrInfo)]) @
       [FetchLedgerObject (keylet_amm x (issue1 input) (issue2 input)) (seq lgrInfo),
        FetchLedgerObject (keylet_account x (sfAccount amm)) (seq lgrInfo)] @
       fst (assemble x b input lgrInfo (keylet_amm x (issue1 input) (issue2 input)) amm)" and
    out: "out = snd (assemble x b input lgrInfo (keylet_amm x (issue1 input) (issue2 input)) amm)"
    by blast
  have lp: "accountID input = None \<Longrightarrow> lpToken out = getJson x (sfLPTokenBalance amm)"
    unfolding out assemble_lpToken by simp
  have none: "accountID input = None \<Longrightarrow> filter (\<lambda>r. \<not> is_IsFrozen r) reads =
          [FetchLedgerRange,
           GetLedgerInfo (ledgerHash input) (ledgerIndex input) (maxSequence rng),
           FetchLedgerObject (keylet_amm x (issue1 input) (issue2 input)) (seq lgrInfo),
           FetchLedgerObject (keylet_account x (sfAccount amm)) (seq lgrInfo),
           AccountHolds (seq lgrInfo) (sfAccount amm) (currency (issue1 input))
             (account (issue1 input)),
           AccountHolds (seq lgrInfo) (sfAccount amm) (currency (issue2 input))
             (account (issue2 input))]"
    unfolding reads r assemble_reads by simp
  have some: "accountID input = Some lp \<Longrightarrow> filter (\<lambda>r. \<not> is_IsFrozen r) reads =
          [FetchLedgerRange,
           GetLedgerInfo (ledgerHash input) (ledgerIndex input) (maxSequence rng),
           FetchLedgerObject (keylet_account x lp) (seq lgrInfo),
           FetchLedgerObject (keylet_amm x (issue1 input) (issue2 input)) (seq lgrInfo),
           FetchLedgerObject (keylet_account x (sfAccount amm)) (seq lgrInfo),
           AccountHolds (seq lgrInfo) (sfAccount amm) (currency (issue1 input))
             (account (issue1 input)),
           AccountHolds (seq lgrInfo) (sfAccount amm) (currency (issue2 input))
             (account (issue2 input)),
           AccountHolds (seq lgrInfo) lp
             (ammLPTCurrency x (currency (sfAsset amm)) (currency (sfAsset2 amm)))
             (sfAccount amm)]" for lp
    unfolding reads r assemble_reads by simp
  show ?thesis
    using rng res amm lp none some by (auto simp: amm_member_lp_token)
qed

theorem lp_token_witness:
  "process ex_lib ex_backend ex_input = (ex_reads, Returned (Inr ex_output)) \<and>
   accountID ex_input = None \<and>
   lpToken ex_output = getJson ex_lib (sfLPTokenBalance ex_amm) \<and>
   filter (\<lambda>r. \<not> is_IsFrozen r) ex_reads =
     [FetchLedgerRange, GetLedgerInfo None None 100, FetchLedgerObject 0 100,
      FetchLedgerObject 6 100, AccountHolds 100 5 1 0, AccountHolds 100 5 0 0]"
proof -
  have none: "accountID ex_input = None"
    by (simp add: ex_input_def)
  from lp_token_without_holder [OF ex_run] obtain rng lgrInfo amm where
    rng: "fetchLedgerRange ex_backend = Some rng" and
    res: "resolved_ledger ex_backend ex_input = Some lgrInfo" and
    amm: "amm_entry ex_lib ex_backend ex_input lgrInfo = Some amm" and
    lp: "lpToken ex_output = getJson ex_lib (sfLPTokenBalance amm)" and
    reads: "filter (\<lambda>r. \<not> is_IsFrozen r) ex_reads =
          [FetchLedgerRange,
           GetLedgerInfo (ledgerHash ex_input) (ledgerIndex ex_input) (maxSequence rng),
           FetchLedgerObject (keylet_amm ex_lib (issue1 ex_input) (issue2 ex_input)) (seq lgrInfo),
           FetchLedgerObject (keylet_account ex_lib (sfAccount amm)) (seq lgrInfo),
           AccountHolds (seq lgrInfo) (sfAccount amm) (currency (issue1 ex_input))
             (account (issue1 ex_input)),
           AccountHolds (seq lgrInfo) (sfAccount amm) (currency (issue2 ex_input))
             (account (issue2 ex_input))]"
    using none by auto
  from res have info: "lgrInfo = \<lparr>seq = 100, parentCloseTime = 43200\<rparr>"
    by (simp add: ex_resolved)
  from amm have "amm = ex_amm"
    by (simp add: info ex_amm_entry)
  with lp have "lpToken ex_output = getJson ex_lib (sfLPTokenBalance ex_amm)"
    by simp
  moreover have "filter (\<lambda>r. \<not> is_IsFrozen r) ex_reads =
     [FetchLedgerRange, GetLedgerInfo None None 100, FetchLedgerObject 0 100,
      FetchLedgerObject 6 100, AccountHolds 100 5 1 0, AccountHolds 100 5 0 0]"
    by (simp add: ex_reads_def)
  ultimately show ?thesis
    using ex_run none by simp
qed

subsection \<open>The auction slot in the output\<close>

text \<open>
  Claim C9. In the output of a request that ends with a response, the \<open>amm\<close> object
  has the member \<open>auction_slot\<close> exactly when the decoded AMM entry has an
  \<open>AuctionSlot\<close> and that slot has an \<open>Account\<close> field; a slot without the field
  gives no \<open>auction_slot\<close> member at all.
\<close>

theorem auction_slot_member_iff:
  assumes "process x b input = (reads, Returned (Inr out))"
  shows "\<exists>lgrInfo amm.
     resolved_ledger b input = Some lgrInfo \<and>
     amm_entry x b input lgrInfo = Some amm \<and>
     (amm_member out ''auction_slot'' \<noteq> None \<longleftrightarrow>
        (\<exists>slot a. sfAuctionSlot amm = Some slot \<and> as_Account slot = Some a))"
proof -
  from process_success [OF assms] obtain lgrInfo r where
    res: "resolved_ledger b input = Some lgrInfo" and
    at: "process_at x b input lgrInfo = (r, Returned (Inr out))"
    by blast
  from process_at_success [OF at] obtain amm where
    amm: "amm_entry x b input lgrInfo = Some amm" and
    out: "out = snd (assemble x b input lgrInfo (keylet_amm x (issue1 input) (issue2 input)) amm)"
    by blast
  have "amm_member out ''auction_slot'' \<noteq> None \<longleftrightarrow>
        (\<exists>slot a. sfAuctionSlot amm = Some slot \<and> as_Account slot = Some a)"
    unfolding amm_member_auction_slot out assemble_auctionSlot
    by (auto simp: auctionJson_not_null split: option.splits)
  with res amm show ?thesis by blast
qed

theorem auction_slot_member_witness:
  "process ex_lib ex_backend ex_input = (ex_reads, Returned (Inr ex_output)) \<and>
   (\<exists>slot. sfAuctionSlot ex_amm = Some slot \<and> as_Account slot = None) \<and>
   amm_member ex_output ''auction_slot'' = None"
proof -
  from auction_slot_member_iff [OF ex_run] obtain lgrInfo amm where
    res: "resolved_ledger ex_backend ex_input = Some lgrInfo" and
    amm: "amm_entry ex_lib ex_backend ex_input lgrInfo = Some amm" and
    iff: "amm_member ex_output ''auction_slot'' \<noteq> None \<longleftrightarrow>
        (\<exists>slot a. sfAuctionSlot amm = Some slot \<and> as_Account slot = Some a)"
    by (elim exE conjE)
  from res have info: "lgrInfo = \<lparr>seq = 100, parentCloseTime = 43200\<rparr>"
    by (simp add: ex_resolved)
  from amm have "amm = ex_amm"
    by (simp add: info ex_amm_entry)
  with iff have "amm_member ex_output ''auction_slot'' = None"
    by (simp add: ex_amm_def)
  moreover have "\<exists>slot. sfAuctionSlot ex_amm = Some slot \<and> as_Account slot = None"
    by (simp add: ex_amm_def)
  ultimately show ?thesis
    using ex_run by simp
qed

end
